theory Spec2Isabelle
  imports Main "HOL-Library.Sublist"
begin

section \<open>The file system the module acts on\<close>

text \<open>
  The module \<^verbatim>\<open>file_dir.py\<close> reads and changes the file system through
  \<^verbatim>\<open>pathlib.Path\<close> and \<^verbatim>\<open>shutil\<close>. The file system is a tree: a node is a
  regular file (with its bytes) or a directory mapping entry names to nodes. A
  value of type \<open>node\<close> used as a file system is the root, a directory \<open>Dir m\<close> in
  any real file system; nothing below depends on that.

  A path is the list of the parts of \<^verbatim>\<open>Path(path)\<close> below the root, outermost
  first. \<^verbatim>\<open>Path\<close> drops empty parts and \<^verbatim>\<open>.\<close> but keeps \<^verbatim>\<open>..\<close>, which the
  kernel resolves to the parent directory when it walks the path; so a part is
  an entry name or \<^verbatim>\<open>..\<close>. A position is a path of entry names only, the place of
  a node in the tree.

  Paths are taken from the root, as the absolute paths in the tests of the
  repository are. Ownership, permissions, symbolic links, time stamps, limits on
  names and on space are not part of the model: the errors of the system calls
  are the ones that the shape of the tree gives. A real call can fail for other
  reasons too; the error is raised like the ones here and meets the same
  \<^verbatim>\<open>except\<close> clauses of the library and of the module. So the theorems say what
  holds when a call of the module returns a result, or what it does at a given
  file system; none says that a call succeeds on every file system.
\<close>

datatype node = File string | Dir "string \<Rightarrow> node option"

type_synonym path = "string list"

datatype oserror = ENOENT | ENOTDIR | EEXIST | EISDIR | EBUSY | ENOTEMPTY

text \<open>The node at a position.\<close>

fun lookup :: "path \<Rightarrow> node \<Rightarrow> oserror + node" where
  "lookup [] n = Inr n"
| "lookup (s # p) (File c) = Inl ENOTDIR"
| "lookup (s # p) (Dir m) = (case m s of None \<Rightarrow> Inl ENOENT | Some c \<Rightarrow> lookup p c)"

text \<open>
  Path resolution: from the position \<open>cur\<close> the kernel takes the parts one by one.
  Each part is looked up in a directory; \<^verbatim>\<open>..\<close> leads to the parent (the root is
  its own parent), a name to the entry of that name, which must exist. The
  result is the position reached.
\<close>

fun walk :: "path \<Rightarrow> path \<Rightarrow> node \<Rightarrow> oserror + path" where
  "walk cur [] fs = Inr cur"
| "walk cur (s # rest) fs =
     (case lookup cur fs of
        Inl e \<Rightarrow> Inl e
      | Inr (File c) \<Rightarrow> Inl ENOTDIR
      | Inr (Dir m) \<Rightarrow>
          if s = ''..'' then walk (butlast cur) rest fs
          else (case m s of None \<Rightarrow> Inl ENOENT | Some c \<Rightarrow> walk (cur @ [s]) rest fs))"

text \<open>\<^verbatim>\<open>os.stat\<close>: resolve a path to the node it names.\<close>

definition stat :: "path \<Rightarrow> node \<Rightarrow> oserror + node" where
  "stat p fs = (case walk [] p fs of Inl e \<Rightarrow> Inl e | Inr q \<Rightarrow> lookup q fs)"

text \<open>
  \<^verbatim>\<open>Path.exists\<close> and \<^verbatim>\<open>Path.is_dir\<close> call \<^verbatim>\<open>stat\<close> and answer False on
  ENOENT and ENOTDIR.
\<close>

definition path_exists :: "path \<Rightarrow> node \<Rightarrow> bool" where
  "path_exists p fs = (case stat p fs of Inl e \<Rightarrow> False | Inr n \<Rightarrow> True)"

definition path_is_dir :: "path \<Rightarrow> node \<Rightarrow> bool" where
  "path_is_dir p fs = (case stat p fs of Inr (Dir m) \<Rightarrow> True | _ \<Rightarrow> False)"

text \<open>
  \<^verbatim>\<open>Path.parent\<close>: the path without its last part, whatever that part is; the
  root is its own parent.
\<close>

definition parent :: "path \<Rightarrow> path" where
  "parent p = butlast p"

subsection \<open>Changes at a position\<close>

text \<open>Create one empty directory at a position; the parent must be a directory.\<close>

fun mkdir_at :: "path \<Rightarrow> node \<Rightarrow> oserror + node" where
  "mkdir_at [] n = Inl EEXIST"
| "mkdir_at (s # p) (File c) = Inl ENOTDIR"
| "mkdir_at [s] (Dir m) =
     (case m s of None \<Rightarrow> Inr (Dir (m(s \<mapsto> Dir Map.empty))) | Some c \<Rightarrow> Inl EEXIST)"
| "mkdir_at (s # t # p) (Dir m) =
     (case m s of
        None \<Rightarrow> Inl ENOENT
      | Some c \<Rightarrow> (case mkdir_at (t # p) c of
                    Inl e \<Rightarrow> Inl e
                  | Inr c' \<Rightarrow> Inr (Dir (m(s \<mapsto> c')))))"

text \<open>Create an empty regular file at a position unless a regular file is there.\<close>

fun creat_at :: "path \<Rightarrow> node \<Rightarrow> oserror + node" where
  "creat_at [] n = (case n of File c \<Rightarrow> Inr n | Dir m \<Rightarrow> Inl EISDIR)"
| "creat_at (s # p) (File c) = Inl ENOTDIR"
| "creat_at [s] (Dir m) =
     (case m s of
        None \<Rightarrow> Inr (Dir (m(s \<mapsto> File [])))
      | Some (File c) \<Rightarrow> Inr (Dir m)
      | Some (Dir m') \<Rightarrow> Inl EISDIR)"
| "creat_at (s # t # p) (Dir m) =
     (case m s of
        None \<Rightarrow> Inl ENOENT
      | Some c \<Rightarrow> (case creat_at (t # p) c of
                    Inl e \<Rightarrow> Inl e
                  | Inr c' \<Rightarrow> Inr (Dir (m(s \<mapsto> c')))))"

text \<open>Remove the regular file at a position.\<close>

fun unlink_at :: "path \<Rightarrow> node \<Rightarrow> oserror + node" where
  "unlink_at [] n = Inl (case n of File c \<Rightarrow> EBUSY | Dir m \<Rightarrow> EISDIR)"
| "unlink_at (s # p) (File c) = Inl ENOTDIR"
| "unlink_at [s] (Dir m) =
     (case m s of
        None \<Rightarrow> Inl ENOENT
      | Some (File c) \<Rightarrow> Inr (Dir (m(s := None)))
      | Some (Dir m') \<Rightarrow> Inl EISDIR)"
| "unlink_at (s # t # p) (Dir m) =
     (case m s of
        None \<Rightarrow> Inl ENOENT
      | Some c \<Rightarrow> (case unlink_at (t # p) c of
                    Inl e \<Rightarrow> Inl e
                  | Inr c' \<Rightarrow> Inr (Dir (m(s \<mapsto> c')))))"

text \<open>Remove the empty directory at a position; the root cannot be removed.\<close>

fun rmdir_at :: "path \<Rightarrow> node \<Rightarrow> oserror + node" where
  "rmdir_at [] n = Inl EBUSY"
| "rmdir_at (s # p) (File c) = Inl ENOTDIR"
| "rmdir_at [s] (Dir m) =
     (case m s of
        None \<Rightarrow> Inl ENOENT
      | Some (File c) \<Rightarrow> Inl ENOTDIR
      | Some (Dir m') \<Rightarrow> if m' = Map.empty then Inr (Dir (m(s := None))) else Inl ENOTEMPTY)"
| "rmdir_at (s # t # p) (Dir m) =
     (case m s of
        None \<Rightarrow> Inl ENOENT
      | Some c \<Rightarrow> (case rmdir_at (t # p) c of
                    Inl e \<Rightarrow> Inl e
                  | Inr c' \<Rightarrow> Inr (Dir (m(s \<mapsto> c')))))"

text \<open>Delete all entries of the directory at a position, with all below them.\<close>

fun clear_at :: "path \<Rightarrow> node \<Rightarrow> node" where
  "clear_at [] n = (case n of File c \<Rightarrow> n | Dir m \<Rightarrow> Dir Map.empty)"
| "clear_at (s # p) (File c) = File c"
| "clear_at (s # p) (Dir m) =
     (case m s of None \<Rightarrow> Dir m | Some c \<Rightarrow> Dir (m(s \<mapsto> clear_at p c)))"

subsection \<open>The system calls\<close>

text \<open>
  A system call that acts on the entry a path names: the kernel resolves all
  parts but the last and acts on the last part in the directory it has reached.
  A last part \<^verbatim>\<open>..\<close> is no entry to create or remove: when the path resolves it
  names an existing directory, and the call fails with its error for that
  (\<open>dots\<close>).
\<close>

definition at_path ::
  "oserror \<Rightarrow> (path \<Rightarrow> node \<Rightarrow> oserror + node) \<Rightarrow> path \<Rightarrow> node \<Rightarrow> oserror + node" where
  "at_path dots f p fs =
     (if p = [] then f [] fs
      else if last p = ''..'' then (case walk [] p fs of Inl e \<Rightarrow> Inl e | Inr q \<Rightarrow> Inl dots)
      else (case walk [] (butlast p) fs of Inl e \<Rightarrow> Inl e | Inr q \<Rightarrow> f (q @ [last p]) fs))"

text \<open>\<^verbatim>\<open>os.mkdir\<close>.\<close>

definition os_mkdir :: "path \<Rightarrow> node \<Rightarrow> oserror + node" where
  "os_mkdir = at_path EEXIST mkdir_at"

text \<open>\<^verbatim>\<open>os.open(path, O_CREAT | O_WRONLY)\<close> followed by \<^verbatim>\<open>close\<close>.\<close>

definition os_open_creat :: "path \<Rightarrow> node \<Rightarrow> oserror + node" where
  "os_open_creat = at_path EISDIR creat_at"

text \<open>\<^verbatim>\<open>os.unlink\<close>.\<close>

definition os_unlink :: "path \<Rightarrow> node \<Rightarrow> oserror + node" where
  "os_unlink = at_path EISDIR unlink_at"

text \<open>\<^verbatim>\<open>os.rmdir\<close>.\<close>

definition os_rmdir :: "path \<Rightarrow> node \<Rightarrow> oserror + node" where
  "os_rmdir = at_path ENOTEMPTY rmdir_at"

subsection \<open>The library calls the module makes\<close>

text \<open>
  A library call that may have changed the file system before it raises returns
  the error, if any, together with the file system it leaves.

  \<^verbatim>\<open>Path.mkdir(parents, exist_ok)\<close>, as in CPython's \<^verbatim>\<open>pathlib\<close>:
  \<^verbatim>\<open>
    try:
        os.mkdir(self, mode)
    except FileNotFoundError:
        if not parents or self.parent == self:
            raise
        self.parent.mkdir(parents=True, exist_ok=True)
        self.mkdir(mode, parents=False, exist_ok=exist_ok)
    except OSError:
        if not exist_ok or not self.is_dir():
            raise
  \<close>
\<close>

function path_mkdir :: "path \<Rightarrow> bool \<Rightarrow> bool \<Rightarrow> node \<Rightarrow> oserror option \<times> node" where
  "path_mkdir p parents exist_ok fs =
     (case os_mkdir p fs of
        Inr fs' \<Rightarrow> (None, fs')
      | Inl e \<Rightarrow>
          if e = ENOENT then
            (if \<not> parents \<or> parent p = p then (Some e, fs)
             else (case path_mkdir (parent p) True True fs of
                     (Some e', fs1) \<Rightarrow> (Some e', fs1)
                   | (None, fs1) \<Rightarrow> path_mkdir p False exist_ok fs1))
          else if \<not> exist_ok \<or> \<not> path_is_dir p fs then (Some e, fs)
          else (None, fs))"
  by pat_completeness auto
termination
proof (relation "measure (\<lambda>(p, parents, exist_ok, fs). 2 * length p + (if parents then 1 else 0))")
  show "wf (measure (\<lambda>(p, parents, exist_ok, fs). 2 * length p + (if parents then 1 else 0)))"
    by simp
next
  fix p :: path and parents exist_ok :: bool and fs :: node and e :: oserror
  assume "\<not> (\<not> parents \<or> parent p = p)"
  then have "parents" "p \<noteq> []" by (auto simp: parent_def)
  then show "((parent p, True, True, fs), (p, parents, exist_ok, fs))
      \<in> measure (\<lambda>(p, parents, exist_ok, fs). 2 * length p + (if parents then 1 else 0))"
    by (cases p) (auto simp: parent_def)
next
  fix p :: path and parents exist_ok :: bool and fs fs1 :: node and e :: oserror
  assume "\<not> (\<not> parents \<or> parent p = p)"
  then show "((p, False, exist_ok, fs1), (p, parents, exist_ok, fs))
      \<in> measure (\<lambda>(p, parents, exist_ok, fs). 2 * length p + (if parents then 1 else 0))"
    by auto
qed

declare path_mkdir.simps [simp del]

text \<open>
  \<^verbatim>\<open>Path.touch()\<close> (\<^verbatim>\<open>exist_ok=True\<close>): \<^verbatim>\<open>os.utime\<close> when the path exists, else
  create the file.
\<close>

definition path_touch :: "path \<Rightarrow> node \<Rightarrow> oserror + node" where
  "path_touch p fs = (if path_exists p fs then Inr fs else os_open_creat p fs)"

text \<open>\<^verbatim>\<open>Path.unlink(missing_ok)\<close>: FileNotFoundError is swallowed when \<^verbatim>\<open>missing_ok\<close>.\<close>

definition path_unlink :: "path \<Rightarrow> bool \<Rightarrow> node \<Rightarrow> oserror + node" where
  "path_unlink p missing_ok fs =
     (case os_unlink p fs of
        Inr fs' \<Rightarrow> Inr fs'
      | Inl e \<Rightarrow> if e = ENOENT \<and> missing_ok then Inr fs else Inl e)"

text \<open>
  \<^verbatim>\<open>shutil.rmtree(path, ignore_errors=False)\<close>: the path must name a directory;
  all its entries are deleted, then \<^verbatim>\<open>os.rmdir(path)\<close> removes the directory.
  That last call resolves the path again, in the file system as the deletions
  have left it; an error it raises is raised by \<^verbatim>\<open>rmtree\<close>, after the deletions.
\<close>

definition rmtree :: "path \<Rightarrow> node \<Rightarrow> oserror option \<times> node" where
  "rmtree p fs =
     (case walk [] p fs of
        Inl e \<Rightarrow> (Some e, fs)
      | Inr q \<Rightarrow>
          (case lookup q fs of
             Inl e \<Rightarrow> (Some e, fs)
           | Inr (File c) \<Rightarrow> (Some ENOTDIR, fs)
           | Inr (Dir m) \<Rightarrow>
               (case os_rmdir p (clear_at q fs) of
                  Inl e \<Rightarrow> (Some e, clear_at q fs)
                | Inr fs' \<Rightarrow> (None, fs'))))"

section \<open>The module\<close>

datatype State = FILE | DIRECTORY | ABSENT

fun state_value :: "State \<Rightarrow> string" where
  "state_value FILE = ''file''"
| "state_value DIRECTORY = ''directory''"
| "state_value ABSENT = ''absent''"

definition to_choices :: "string list" where
  "to_choices = map state_value [FILE, DIRECTORY, ABSENT]"

definition get_current_state :: "path \<Rightarrow> node \<Rightarrow> State" where
  "get_current_state p fs =
     (if path_exists p fs then (if path_is_dir p fs then DIRECTORY else FILE) else ABSENT)"

text \<open>
  The dictionaries of the module have fixed keys, so they are records; a key
  that may be missing is an optional field.
\<close>

record side =
  side_path :: path
  side_state :: "string option"

record diff =
  before :: side
  after :: side

record result =
  changed :: bool
  diff :: "diff option"
  path :: "path option"

definition init_diff :: "path \<Rightarrow> State \<Rightarrow> State \<Rightarrow> diff" where
  "init_diff p next_state current_state =
     (if current_state \<noteq> next_state
      then \<lparr>before = \<lparr>side_path = p, side_state = Some (state_value current_state)\<rparr>,
            after = \<lparr>side_path = p, side_state = Some (state_value next_state)\<rparr>\<rparr>
      else \<lparr>before = \<lparr>side_path = p, side_state = None\<rparr>,
            after = \<lparr>side_path = p, side_state = None\<rparr>\<rparr>)"

definition get_check_mode_result :: "diff \<Rightarrow> path \<Rightarrow> result" where
  "get_check_mode_result d p = \<lparr>changed = True, diff = Some d, path = Some p\<rparr>"

text \<open>
  The \<^verbatim>\<open>AnsibleModule\<close>: its parameters and the check-mode flag.
  \<^verbatim>\<open>module.fail_json(msg=...)\<close> does not return; a call that reaches it ends with
  the failure it reports, and with the file system as it is at that moment. The
  three operations return the outcome (a failure or the result dictionary)
  together with the file system they leave. In \<^verbatim>\<open>ensure_file\<close> the test for
  DIRECTORY follows the ABSENT branch as a second \<^verbatim>\<open>if\<close>; the current state is
  read once, so the two tests exclude each other.
\<close>

record module =
  params_state :: string
  params_path :: path
  params_nested :: bool
  check_mode :: bool

datatype failure =
    CouldNotCreateFile path oserror
  | PathIsDirectory path
  | CouldNotCreateDirectory path oserror
  | CouldNotDeleteDirectory path oserror
  | CouldNotDeleteFile path oserror

definition ensure_file :: "path \<Rightarrow> bool \<Rightarrow> module \<Rightarrow> node \<Rightarrow> (failure + result) \<times> node" where
  "ensure_file p nested module fs =
     (let current_state = get_current_state p fs;
          d = init_diff p FILE current_state
      in if current_state = ABSENT then
           (if check_mode module then (Inr (get_check_mode_result d p), fs)
            else (case path_mkdir (parent p) nested True fs of
                    (Some e, fs1) \<Rightarrow> (Inl (CouldNotCreateFile p e), fs1)
                  | (None, fs1) \<Rightarrow>
                      (case path_touch p fs1 of
                         Inl e \<Rightarrow> (Inl (CouldNotCreateFile p e), fs1)
                       | Inr fs2 \<Rightarrow> (Inr \<lparr>changed = True, diff = Some d, path = Some p\<rparr>, fs2))))
         else if current_state = DIRECTORY then (Inl (PathIsDirectory p), fs)
         else (Inr \<lparr>changed = False, diff = Some d, path = Some p\<rparr>, fs))"

definition ensure_directory :: "path \<Rightarrow> bool \<Rightarrow> module \<Rightarrow> node \<Rightarrow> (failure + result) \<times> node" where
  "ensure_directory p nested module fs =
     (let current_state = get_current_state p fs;
          d = init_diff p DIRECTORY current_state
      in if current_state = ABSENT then
           (if check_mode module then (Inr (get_check_mode_result d p), fs)
            else (case path_mkdir p nested True fs of
                    (Some e, fs1) \<Rightarrow> (Inl (CouldNotCreateDirectory p e), fs1)
                  | (None, fs1) \<Rightarrow> (Inr \<lparr>changed = True, diff = Some d, path = Some p\<rparr>, fs1)))
         else (Inr \<lparr>changed = False, diff = Some d, path = Some p\<rparr>, fs))"

definition ensure_absent :: "path \<Rightarrow> module \<Rightarrow> node \<Rightarrow> (failure + result) \<times> node" where
  "ensure_absent p module fs =
     (let current_state = get_current_state p fs;
          d = init_diff p ABSENT current_state
      in if current_state = DIRECTORY then
           (if check_mode module then (Inr (get_check_mode_result d p), fs)
            else (case rmtree p fs of
                    (Some e, fs1) \<Rightarrow> (Inl (CouldNotDeleteDirectory p e), fs1)
                  | (None, fs1) \<Rightarrow> (Inr \<lparr>changed = True, diff = Some d, path = Some p\<rparr>, fs1)))
         else if current_state = FILE then
           (if check_mode module then (Inr (get_check_mode_result d p), fs)
            else (case path_unlink p True fs of
                    Inl e \<Rightarrow> (Inl (CouldNotDeleteFile p e), fs)
                  | Inr fs1 \<Rightarrow> (Inr \<lparr>changed = True, diff = Some d, path = Some p\<rparr>, fs1)))
         else (Inr \<lparr>changed = False, diff = Some d, path = Some p\<rparr>, fs))"

definition run_proper_handler :: "module \<Rightarrow> node \<Rightarrow> (failure + result) \<times> node" where
  "run_proper_handler module fs =
     (let state = params_state module;
          p = params_path module;
          nested = params_nested module
      in if state = state_value FILE then ensure_file p nested module fs
         else if state = state_value DIRECTORY then ensure_directory p nested module fs
         else if state = state_value ABSENT then ensure_absent p module fs
         else (Inr \<lparr>changed = False, diff = None, path = None\<rparr>, fs))"

subsection \<open>Two notions for the proofs\<close>



section \<open>How the calls change the classification of paths\<close>

subsection \<open>Positions\<close>











subsection \<open>Path resolution\<close>


declare walk.simps(2) [simp del]








subsection \<open>The classification of a path\<close>







subsection \<open>Changes at a position\<close>








subsection \<open>The system calls\<close>








subsection \<open>The library calls\<close>











subsection \<open>What a call of the module that returns a result has done\<close>




lemmas gcs_simps = get_current_state_def path_exists_def path_is_dir_def stat_def walk.simps

text \<open>The equations that evaluate a call on a concrete file system.\<close>

lemmas run_simps =
  run_proper_handler_def ensure_file_def ensure_directory_def ensure_absent_def Let_def
  init_diff_def get_check_mode_result_def gcs_simps parent_def path_touch_def path_unlink_def
  rmtree_def at_path_def os_mkdir_def os_open_creat_def os_unlink_def os_rmdir_def
  path_mkdir.simps

section \<open>The claims about the module\<close>

text \<open>
  Claim C7. The diff that \<open>init_diff\<close> builds carries the path on both sides. When
  the current state equals the desired state neither side has a state; otherwise
  the before side has the current state's value and the after side the desired
  state's value. So the state is present on one side exactly when it is present
  on the other.
\<close>

theorem init_diff_contract:
  "side_path (before (init_diff p next_state current_state)) = p \<and>
   side_path (after (init_diff p next_state current_state)) = p \<and>
   (current_state = next_state \<longrightarrow>
      side_state (before (init_diff p next_state current_state)) = None \<and>
      side_state (after (init_diff p next_state current_state)) = None) \<and>
   (current_state \<noteq> next_state \<longrightarrow>
      side_state (before (init_diff p next_state current_state)) = Some (state_value current_state) \<and>
      side_state (after (init_diff p next_state current_state)) = Some (state_value next_state)) \<and>
   (side_state (before (init_diff p next_state current_state)) \<noteq> None \<longleftrightarrow>
    side_state (after (init_diff p next_state current_state)) \<noteq> None)"
  by (simp add: init_diff_def)

theorem init_diff_contract_witness:
  "FILE = FILE \<and>
   side_state (before (init_diff [''tmp'', ''file''] FILE FILE)) = None \<and>
   side_state (after (init_diff [''tmp'', ''file''] FILE FILE)) = None \<and>
   ABSENT \<noteq> FILE \<and>
   side_state (before (init_diff [''tmp'', ''file''] FILE ABSENT)) = Some ''absent'' \<and>
   side_state (after (init_diff [''tmp'', ''file''] FILE ABSENT)) = Some ''file''"
  using init_diff_contract [of "[''tmp'', ''file'']" FILE FILE]
    init_diff_contract [of "[''tmp'', ''file'']" FILE ABSENT]
  by simp

text \<open>
  Claim C5. When the path is a directory, \<open>ensure_file\<close> ends in the failure
  "path is directory", in check mode or not, and the file system is as before.
\<close>

theorem ensure_file_on_directory:
  "get_current_state p fs = DIRECTORY \<Longrightarrow>
     ensure_file p nested module fs = (Inl (PathIsDirectory p), fs)"
  by (simp add: ensure_file_def Let_def)

theorem ensure_file_on_directory_witness:
  "get_current_state [''tmp'', ''d''] (Dir [''tmp'' \<mapsto> Dir [''d'' \<mapsto> Dir Map.empty]]) = DIRECTORY \<and>
   ensure_file [''tmp'', ''d''] True
       \<lparr>params_state = ''file'', params_path = [''tmp'', ''d''], params_nested = True,
        check_mode = False\<rparr>
       (Dir [''tmp'' \<mapsto> Dir [''d'' \<mapsto> Dir Map.empty]])
     = (Inl (PathIsDirectory [''tmp'', ''d'']), Dir [''tmp'' \<mapsto> Dir [''d'' \<mapsto> Dir Map.empty]])"
proof -
  have h: "get_current_state [''tmp'', ''d''] (Dir [''tmp'' \<mapsto> Dir [''d'' \<mapsto> Dir Map.empty]]) = DIRECTORY"
    by (simp add: gcs_simps)
  from h ensure_file_on_directory [OF h] show ?thesis by simp
qed

text \<open>
  Claim C6. When the path is a regular file, \<open>ensure_directory\<close> outside check mode
  returns a result with \<open>changed = False\<close> and leaves the file system as it was; it
  raises no failure.
\<close>

theorem ensure_directory_on_file:
  "get_current_state p fs = FILE \<Longrightarrow> \<not> check_mode module \<Longrightarrow>
     ensure_directory p nested module fs =
       (Inr \<lparr>changed = False, diff = Some (init_diff p DIRECTORY FILE), path = Some p\<rparr>, fs)"
  by (simp add: ensure_directory_def Let_def)

theorem ensure_directory_on_file_witness:
  "get_current_state [''tmp'', ''f''] (Dir [''tmp'' \<mapsto> Dir [''f'' \<mapsto> File ''abc'']]) = FILE \<and>
   \<not> check_mode \<lparr>params_state = ''directory'', params_path = [''tmp'', ''f''],
                 params_nested = False, check_mode = False\<rparr> \<and>
   ensure_directory [''tmp'', ''f''] False
       \<lparr>params_state = ''directory'', params_path = [''tmp'', ''f''], params_nested = False,
        check_mode = False\<rparr>
       (Dir [''tmp'' \<mapsto> Dir [''f'' \<mapsto> File ''abc'']])
     = (Inr \<lparr>changed = False, diff = Some (init_diff [''tmp'', ''f''] DIRECTORY FILE),
            path = Some [''tmp'', ''f'']\<rparr>,
        Dir [''tmp'' \<mapsto> Dir [''f'' \<mapsto> File ''abc'']])"
proof -
  have h: "get_current_state [''tmp'', ''f''] (Dir [''tmp'' \<mapsto> Dir [''f'' \<mapsto> File ''abc'']]) = FILE"
    by (simp add: gcs_simps)
  from h ensure_directory_on_file [OF h, of _ False] show ?thesis by simp
qed

text \<open>
  Claim C9. When the path is a regular file, the result of \<open>ensure_directory\<close> has
  \<open>changed = False\<close> although its diff carries the states "file" before and
  "directory" after.
\<close>

theorem ensure_directory_on_file_diff:
  "get_current_state p fs = FILE \<Longrightarrow>
     (\<exists>r. fst (ensure_directory p nested module fs) = Inr r \<and> \<not> changed r \<and>
          (\<exists>d. diff r = Some d \<and> side_state (before d) = Some ''file'' \<and>
               side_state (after d) = Some ''directory''))"
  by (simp add: ensure_directory_def Let_def init_diff_def)

theorem ensure_directory_on_file_diff_witness:
  "get_current_state [''f''] (Dir [''f'' \<mapsto> File []]) = FILE \<and>
   (\<exists>r. fst (ensure_directory [''f''] True
               \<lparr>params_state = ''directory'', params_path = [''f''], params_nested = True,
                check_mode = True\<rparr> (Dir [''f'' \<mapsto> File []])) = Inr r \<and> \<not> changed r \<and>
        (\<exists>d. diff r = Some d \<and> side_state (before d) = Some ''file'' \<and>
             side_state (after d) = Some ''directory''))"
proof -
  have h: "get_current_state [''f''] (Dir [''f'' \<mapsto> File []]) = FILE"
    by (simp add: gcs_simps)
  from h ensure_directory_on_file_diff [OF h] show ?thesis by blast
qed

text \<open>
  Claim C10. With the desired state "absent", the handler gives the same outcome
  and the same file system whether the \<open>nested\<close> parameter is true or false.
\<close>

theorem absent_ignores_nested:
  "params_state module = ''absent'' \<Longrightarrow>
     run_proper_handler (module\<lparr>params_nested := True\<rparr>) fs =
     run_proper_handler (module\<lparr>params_nested := False\<rparr>) fs"
  by (simp add: run_proper_handler_def Let_def ensure_absent_def)

theorem absent_ignores_nested_witness:
  "params_state \<lparr>params_state = ''absent'', params_path = [''tmp''], params_nested = False,
                 check_mode = False\<rparr> = ''absent'' \<and>
   run_proper_handler \<lparr>params_state = ''absent'', params_path = [''tmp''], params_nested = True,
                       check_mode = False\<rparr> (Dir [''tmp'' \<mapsto> File []]) =
   run_proper_handler \<lparr>params_state = ''absent'', params_path = [''tmp''], params_nested = False,
                       check_mode = False\<rparr> (Dir [''tmp'' \<mapsto> File []])"
  using absent_ignores_nested [of "\<lparr>params_state = ''absent'', params_path = [''tmp''],
    params_nested = False, check_mode = False\<rparr>" "Dir [''tmp'' \<mapsto> File []]"]
  by simp




text \<open>
  Claim C2. The code does not do what the claim says. With only the parent \<open>d\<close>
  of \<^verbatim>\<open>d/f\<close> missing, \<open>ensure_file\<close> with \<open>nested = False\<close> creates \<open>d\<close> and the file
  and returns a result with \<open>changed = True\<close>: it calls
  \<^verbatim>\<open>file.parent.mkdir(parents=nested, exist_ok=True)\<close>, where \<^verbatim>\<open>parents=False\<close>
  still makes the last directory. On the same path and file system
  \<open>ensure_directory\<close> with \<open>nested = False\<close> fails and creates nothing.
\<close>

theorem ensure_file_creates_missing_parent:
  "get_current_state (parent [''d'', ''f'']) (Dir Map.empty) = ABSENT \<and>
   ensure_file [''d'', ''f''] False
       \<lparr>params_state = ''file'', params_path = [''d'', ''f''], params_nested = False,
        check_mode = False\<rparr>
       (Dir Map.empty) =
     (Inr \<lparr>changed = True,
           diff = Some \<lparr>before = \<lparr>side_path = [''d'', ''f''], side_state = Some ''absent''\<rparr>,
                        after = \<lparr>side_path = [''d'', ''f''], side_state = Some ''file''\<rparr>\<rparr>,
           path = Some [''d'', ''f'']\<rparr>,
      Dir [''d'' \<mapsto> Dir [''f'' \<mapsto> File []]]) \<and>
   ensure_directory [''d'', ''f''] False
       \<lparr>params_state = ''directory'', params_path = [''d'', ''f''], params_nested = False,
        check_mode = False\<rparr>
       (Dir Map.empty) =
     (Inl (CouldNotCreateDirectory [''d'', ''f''] ENOENT), Dir Map.empty)"
  by (simp add: run_simps)




text \<open>
  Claim C4. In check mode every call leaves the file system as it was. Each branch
  that changes the file system outside check mode (an absent path for
  \<open>ensure_file\<close> and \<open>ensure_directory\<close>, an existing path for \<open>ensure_absent\<close>)
  returns \<open>changed = True\<close> with the diff, whether or not the change would succeed:
  the formula puts no condition on the parents of the path.
\<close>

theorem check_mode_pure:
  "check_mode module \<Longrightarrow>
     snd (ensure_file p nested module fs) = fs \<and>
     snd (ensure_directory p nested module fs) = fs \<and>
     snd (ensure_absent p module fs) = fs \<and>
     snd (run_proper_handler module fs) = fs \<and>
     (get_current_state p fs = ABSENT \<longrightarrow>
        fst (ensure_file p nested module fs) =
          Inr \<lparr>changed = True, diff = Some (init_diff p FILE ABSENT), path = Some p\<rparr> \<and>
        fst (ensure_directory p nested module fs) =
          Inr \<lparr>changed = True, diff = Some (init_diff p DIRECTORY ABSENT), path = Some p\<rparr>) \<and>
     (get_current_state p fs \<noteq> ABSENT \<longrightarrow>
        fst (ensure_absent p module fs) =
          Inr \<lparr>changed = True, diff = Some (init_diff p ABSENT (get_current_state p fs)),
               path = Some p\<rparr>)"
  by (cases "get_current_state p fs"; cases "get_current_state (params_path module) fs")
     (simp_all add: ensure_file_def ensure_directory_def ensure_absent_def run_proper_handler_def
       get_check_mode_result_def Let_def)

theorem check_mode_pure_witness:
  "check_mode \<lparr>params_state = ''directory'', params_path = [''a'', ''b'', ''c''],
               params_nested = False, check_mode = True\<rparr> \<and>
   get_current_state [''a'', ''b'', ''c''] (Dir Map.empty) = ABSENT \<and>
   ensure_directory [''a'', ''b'', ''c''] False
       \<lparr>params_state = ''directory'', params_path = [''a'', ''b'', ''c''],
        params_nested = False, check_mode = True\<rparr> (Dir Map.empty)
     = (Inr \<lparr>changed = True, diff = Some (init_diff [''a'', ''b'', ''c''] DIRECTORY ABSENT),
            path = Some [''a'', ''b'', ''c'']\<rparr>, Dir Map.empty) \<and>
   ensure_directory [''a'', ''b'', ''c''] False
       \<lparr>params_state = ''directory'', params_path = [''a'', ''b'', ''c''],
        params_nested = False, check_mode = False\<rparr> (Dir Map.empty)
     = (Inl (CouldNotCreateDirectory [''a'', ''b'', ''c''] ENOENT), Dir Map.empty) \<and>
   get_current_state [''a''] (Dir [''a'' \<mapsto> File []]) \<noteq> ABSENT \<and>
   ensure_absent [''a'']
       \<lparr>params_state = ''directory'', params_path = [''a'', ''b'', ''c''],
        params_nested = False, check_mode = True\<rparr> (Dir [''a'' \<mapsto> File []])
     = (Inr \<lparr>changed = True, diff = Some (init_diff [''a''] ABSENT FILE), path = Some [''a'']\<rparr>,
        Dir [''a'' \<mapsto> File []])"
proof -
  let ?m = "\<lparr>params_state = ''directory'', params_path = [''a'', ''b'', ''c''],
               params_nested = False, check_mode = True\<rparr>"
  have c: "check_mode ?m" by simp
  have a: "get_current_state [''a'', ''b'', ''c''] (Dir Map.empty) = ABSENT"
    by (simp add: gcs_simps)
  have f: "get_current_state [''a''] (Dir [''a'' \<mapsto> File []]) = FILE"
    by (simp add: gcs_simps)
  have n: "ensure_directory [''a'', ''b'', ''c''] False
       \<lparr>params_state = ''directory'', params_path = [''a'', ''b'', ''c''],
        params_nested = False, check_mode = False\<rparr> (Dir Map.empty)
     = (Inl (CouldNotCreateDirectory [''a'', ''b'', ''c''] ENOENT), Dir Map.empty)"
    by (simp add: run_simps)
  from check_mode_pure [OF c, of "[''a'', ''b'', ''c'']" False "Dir Map.empty"]
    check_mode_pure [OF c, of "[''a'']" False "Dir [''a'' \<mapsto> File []]"] c a f n
  show ?thesis by (simp add: prod_eq_iff)
qed

text \<open>
  Claim C8. The handler is the call of \<open>ensure_file\<close>, \<open>ensure_directory\<close> or
  \<open>ensure_absent\<close> that the state parameter names, with that call's outcome and
  file system. A state parameter outside the three values of \<open>to_choices\<close> gives the
  result \<open>{changed: False}\<close> and leaves the file system as it was.
\<close>

theorem run_proper_handler_dispatch:
  "(params_state module = ''file'' \<longrightarrow>
      run_proper_handler module fs =
        ensure_file (params_path module) (params_nested module) module fs) \<and>
   (params_state module = ''directory'' \<longrightarrow>
      run_proper_handler module fs =
        ensure_directory (params_path module) (params_nested module) module fs) \<and>
   (params_state module = ''absent'' \<longrightarrow>
      run_proper_handler module fs = ensure_absent (params_path module) module fs) \<and>
   (params_state module \<notin> set to_choices \<longrightarrow>
      run_proper_handler module fs = (Inr \<lparr>changed = False, diff = None, path = None\<rparr>, fs)) \<and>
   to_choices = [''file'', ''directory'', ''absent'']"
  by (simp add: run_proper_handler_def Let_def to_choices_def)

theorem run_proper_handler_dispatch_witness:
  "run_proper_handler
     \<lparr>params_state = ''file'', params_path = [''f''], params_nested = False, check_mode = False\<rparr>
     (Dir Map.empty) =
   ensure_file [''f''] False
     \<lparr>params_state = ''file'', params_path = [''f''], params_nested = False, check_mode = False\<rparr>
     (Dir Map.empty) \<and>
   run_proper_handler
     \<lparr>params_state = ''directory'', params_path = [''f''], params_nested = False, check_mode = False\<rparr>
     (Dir Map.empty) =
   ensure_directory [''f''] False
     \<lparr>params_state = ''directory'', params_path = [''f''], params_nested = False, check_mode = False\<rparr>
     (Dir Map.empty) \<and>
   run_proper_handler
     \<lparr>params_state = ''absent'', params_path = [''f''], params_nested = False, check_mode = False\<rparr>
     (Dir Map.empty) =
   ensure_absent [''f'']
     \<lparr>params_state = ''absent'', params_path = [''f''], params_nested = False, check_mode = False\<rparr>
     (Dir Map.empty) \<and>
   ''link'' \<notin> set to_choices \<and>
   run_proper_handler
     \<lparr>params_state = ''link'', params_path = [''f''], params_nested = False, check_mode = False\<rparr>
     (Dir Map.empty) =
   (Inr \<lparr>changed = False, diff = None, path = None\<rparr>, Dir Map.empty)"
proof -
  have l: "''link'' \<notin> set to_choices" by (simp add: to_choices_def)
  have f: "params_state \<lparr>params_state = ''file'', params_path = [''f''],
      params_nested = False, check_mode = False\<rparr> = ''file''" by simp
  have d: "params_state \<lparr>params_state = ''directory'', params_path = [''f''],
      params_nested = False, check_mode = False\<rparr> = ''directory''" by simp
  have a: "params_state \<lparr>params_state = ''absent'', params_path = [''f''],
      params_nested = False, check_mode = False\<rparr> = ''absent''" by simp
  have l': "params_state \<lparr>params_state = ''link'', params_path = [''f''],
      params_nested = False, check_mode = False\<rparr> \<notin> set to_choices" using l by simp
  note t = run_proper_handler_dispatch
  from t [THEN conjunct1, rule_format, OF f]
    t [THEN conjunct2, THEN conjunct1, rule_format, OF d]
    t [THEN conjunct2, THEN conjunct2, THEN conjunct1, rule_format, OF a]
    t [THEN conjunct2, THEN conjunct2, THEN conjunct2, THEN conjunct1, rule_format, OF l'] l
  show ?thesis by simp
qed

end
